theory Spec2Isabelle
  imports Complex_Main "HOL-Library.Char_ord" "HOL-Library.List_Lexorder"
begin

section \<open>Rate limiting configuration (rate_limit_config.py)\<close>

text \<open>
  Python floats are idealised as real numbers throughout this development: the
  properties verified here concern which branch the code takes and which values it
  passes on, not rounding error of binary floating point.
\<close>

record preset_config =
  max_workers :: nat
  batch_size :: nat
  delay_range :: "real \<times> real"
  inter_batch_delay :: "real \<times> real"

text \<open>The module-level dictionary \<^verbatim>\<open>RATE_LIMIT_CONFIG\<close>; only the two keys read by
  the analyzer are kept.\<close>

definition RATE_LIMIT_max_retries :: nat where
  "RATE_LIMIT_max_retries = 3"

definition RATE_LIMIT_exponential_backoff_base :: real where
  "RATE_LIMIT_exponential_backoff_base = 1"

definition preset_aggressive :: preset_config where
  "preset_aggressive =
     \<lparr>max_workers = 5, batch_size = 100, delay_range = (2 / 10, 1), inter_batch_delay = (1, 3)\<rparr>"

definition preset_balanced :: preset_config where
  "preset_balanced =
     \<lparr>max_workers = 3, batch_size = 50, delay_range = (5 / 10, 2), inter_batch_delay = (2, 5)\<rparr>"

definition preset_conservative :: preset_config where
  "preset_conservative =
     \<lparr>max_workers = 1, batch_size = 20, delay_range = (1, 3), inter_batch_delay = (5, 10)\<rparr>"

definition preset_ultra_conservative :: preset_config where
  "preset_ultra_conservative =
     \<lparr>max_workers = 1, batch_size = 10, delay_range = (2, 5), inter_batch_delay = (10, 20)\<rparr>"

text \<open>The dictionary \<^verbatim>\<open>PRESETS\<close>, as an association list in source order.\<close>

definition PRESETS :: "(string \<times> preset_config) list" where
  "PRESETS =
     [(''aggressive'', preset_aggressive),
      (''balanced'', preset_balanced),
      (''conservative'', preset_conservative),
      (''ultra_conservative'', preset_ultra_conservative)]"

text \<open>\<^verbatim>\<open>get_config\<close>: a known name is looked up, any other name falls through to
  \<^verbatim>\<open>PRESETS['balanced']\<close>.\<close>

datatype py_error =
  KeyError | TypeError | ZeroDivisionError | OverflowError | ValueError | IndexError
  | LibraryError string

definition dict_getitem :: "(string \<times> 'v) list \<Rightarrow> string \<Rightarrow> py_error + 'v" where
  "dict_getitem d k = (case map_of d k of Some v \<Rightarrow> Inr v | None \<Rightarrow> Inl KeyError)"

definition get_config :: "string \<Rightarrow> py_error + preset_config" where
  "get_config preset =
     (if preset \<in> set (map fst PRESETS) then dict_getitem PRESETS preset
      else dict_getitem PRESETS ''balanced'')"

section \<open>Python values and strings\<close>

text \<open>
  The values found in the provider's info dictionary: \<^verbatim>\<open>None\<close>, a number or a string.
  Characters are ASCII; the string methods below are the ASCII behaviour of their
  Python namesakes.
\<close>

datatype pyval = PNone | PNum real | PStr string

fun truthy :: "pyval \<Rightarrow> bool" where
  "truthy PNone = False"
| "truthy (PNum x) = (x \<noteq> 0)"
| "truthy (PStr s) = (s \<noteq> [])"

text \<open>\<^verbatim>\<open>d.get(k, default)\<close>\<close>

definition dict_get :: "(string \<rightharpoonup> pyval) \<Rightarrow> string \<Rightarrow> pyval \<Rightarrow> pyval" where
  "dict_get d k dflt = (case d k of Some v \<Rightarrow> v | None \<Rightarrow> dflt)"

definition bind_err :: "'e + 'a \<Rightarrow> ('a \<Rightarrow> 'e + 'b) \<Rightarrow> 'e + 'b" where
  "bind_err m f = (case m of Inl e \<Rightarrow> Inl e | Inr x \<Rightarrow> f x)"

text \<open>\<^verbatim>\<open>round(x, n)\<close> on a number: to the nearest multiple of \<open>10 ^ -n\<close>, ties to even.\<close>

definition round_half_even :: "real \<Rightarrow> int" where
  "round_half_even x =
     (let f = \<lfloor>x\<rfloor>; d = x - of_int f
      in if d < 1 / 2 then f else if 1 / 2 < d then f + 1 else if even f then f else f + 1)"

definition round_ndigits :: "nat \<Rightarrow> real \<Rightarrow> real" where
  "round_ndigits n x = of_int (round_half_even (x * 10 ^ n)) / 10 ^ n"

fun py_round :: "pyval \<Rightarrow> nat \<Rightarrow> py_error + pyval" where
  "py_round (PNum x) n = Inr (PNum (round_ndigits n x))"
| "py_round v n = Inl TypeError"

text \<open>\<^verbatim>\<open>a / b\<close> and \<^verbatim>\<open>a * 100\<close>; a string times an integer is its repetition.\<close>

fun py_truediv :: "pyval \<Rightarrow> pyval \<Rightarrow> py_error + pyval" where
  "py_truediv (PNum a) (PNum b) = (if b = 0 then Inl ZeroDivisionError else Inr (PNum (a / b)))"
| "py_truediv a b = Inl TypeError"

fun py_times100 :: "pyval \<Rightarrow> py_error + pyval" where
  "py_times100 (PNum a) = Inr (PNum (a * 100))"
| "py_times100 (PStr s) = Inr (PStr (concat (replicate 100 s)))"
| "py_times100 PNone = Inl TypeError"

definition startswith :: "string \<Rightarrow> string \<Rightarrow> bool" where
  "startswith s p = (take (length p) s = p)"

definition endswith :: "string \<Rightarrow> string \<Rightarrow> bool" where
  "endswith s p = (length p \<le> length s \<and> drop (length s - length p) s = p)"

text \<open>\<^verbatim>\<open>p in s\<close> for strings.\<close>

fun contains :: "string \<Rightarrow> string \<Rightarrow> bool" where
  "contains [] p = (p = [])"
| "contains (c # cs) p = (startswith (c # cs) p \<or> contains cs p)"

definition ascii_upper :: string where
  "ascii_upper = ''ABCDEFGHIJKLMNOPQRSTUVWXYZ''"

definition ascii_lower :: string where
  "ascii_lower = ''abcdefghijklmnopqrstuvwxyz''"

definition ascii_digits :: string where
  "ascii_digits = ''0123456789''"

definition lower_char :: "char \<Rightarrow> char" where
  "lower_char c = (case map_of (zip ascii_upper ascii_lower) c of Some l \<Rightarrow> l | None \<Rightarrow> c)"

definition lower :: "string \<Rightarrow> string" where
  "lower s = map lower_char s"

definition isalpha :: "char \<Rightarrow> bool" where
  "isalpha c = (c \<in> set (ascii_upper @ ascii_lower))"

definition isalnum :: "char \<Rightarrow> bool" where
  "isalnum c = (c \<in> set (ascii_upper @ ascii_lower @ ascii_digits))"

text \<open>\<^verbatim>\<open>s.isalnum()\<close>: false on the empty string.\<close>

definition str_isalnum :: "string \<Rightarrow> bool" where
  "str_isalnum s = (s \<noteq> [] \<and> list_all isalnum s)"

definition isspace :: "char \<Rightarrow> bool" where
  "isspace c = (c \<in> set [CHR 0x09, CHR 0x0A, CHR 0x0B, CHR 0x0C, CHR 0x0D,
                          CHR 0x1C, CHR 0x1D, CHR 0x1E, CHR 0x1F, CHR 0x20])"

definition strip :: "string \<Rightarrow> string" where
  "strip s = rev (dropWhile isspace (rev (dropWhile isspace s)))"

text \<open>\<^verbatim>\<open>s.replace(a, b)\<close> for single characters, and \<^verbatim>\<open>s.replace(a, '')\<close>.\<close>

definition replace_char :: "char \<Rightarrow> char \<Rightarrow> string \<Rightarrow> string" where
  "replace_char a b s = map (\<lambda>c. if c = a then b else c) s"

definition remove_char :: "char \<Rightarrow> string \<Rightarrow> string" where
  "remove_char a s = filter (\<lambda>c. c \<noteq> a) s"

section \<open>Ticker universe (get_fortune5000_tickers)\<close>

definition excluded_suffixes :: "string list" where
  "excluded_suffixes =
     [''.W'', ''.U'', ''.R'', ''$'', ''#'', ''.A'', ''.B'', ''.C'', ''.D'', ''.E'', ''.F'',
      ''.G'', ''.H'', ''.I'', ''.J'', ''.K'', ''.L'', ''.M'', ''.N'', ''.O'', ''.P'', ''.Q'',
      ''.R'', ''.S'', ''.T'', ''.U'', ''.V'', ''.W'', ''.X'', ''.Y'', ''.Z'']"

text \<open>
  The body of the loop over \<^verbatim>\<open>all_tickers\<close>: \<open>None\<close> where the source reaches
  \<^verbatim>\<open>continue\<close> or does not append, \<open>Some\<close> of the appended ticker otherwise. The
  argument is \<^verbatim>\<open>str(ticker)\<close>.
\<close>

definition valid_ticker :: "string \<Rightarrow> string option" where
  "valid_ticker raw =
     (let ticker = strip raw in
      if ticker = [] \<or> ticker = ''nan'' \<or> 6 < length ticker then None
      else if list_ex (endswith ticker) excluded_suffixes then None
      else if CHR ''$'' \<in> set ticker \<or> CHR ''#'' \<in> set ticker then None
      else
        let ticker' = (if CHR ''.'' \<in> set ticker \<and> \<not> endswith ticker ''.''
                       then replace_char CHR ''.'' CHR ''-'' ticker else ticker)
        in if str_isalnum (remove_char CHR ''.'' (remove_char CHR ''-'' ticker'))
              \<and> (case ticker' of [] \<Rightarrow> False | c # _ \<Rightarrow> isalpha c)
           then Some ticker' else None)"

text \<open>Lines 80--108: the loop, then \<^verbatim>\<open>sorted(list(set(valid_tickers)))\<close>.\<close>

definition filter_tickers :: "string list \<Rightarrow> string list" where
  "filter_tickers all_tickers = sort (remdups (List.map_filter valid_ticker all_tickers))"

text \<open>The argument is the \<^verbatim>\<open>Symbol\<close> column of the CSV file, \<open>None\<close> when reading it
  raised.\<close>

definition get_fortune5000_tickers :: "string list option \<Rightarrow> string list option" where
  "get_fortune5000_tickers csv = map_option filter_tickers csv"

section \<open>Fundamental ratios (calculate_fundamental_ratios)\<close>

record fundamental_ratios =
  pe_ratio :: pyval
  forward_pe :: pyval
  peg_ratio :: pyval
  debt_to_equity :: pyval
  free_cash_flow :: pyval
  dividend_yield :: pyval
  book_value :: pyval
  price_to_book :: pyval
  return_on_equity :: pyval

definition null_fundamental_ratios :: fundamental_ratios where
  "null_fundamental_ratios =
     \<lparr>pe_ratio = PNone, forward_pe = PNone, peg_ratio = PNone, debt_to_equity = PNone,
      free_cash_flow = PNone, dividend_yield = PNone, book_value = PNone,
      price_to_book = PNone, return_on_equity = PNone\<rparr>"

text \<open>\<^verbatim>\<open>round(v, 2) if v else None\<close>\<close>

definition round2_if :: "pyval \<Rightarrow> py_error + pyval" where
  "round2_if v = (if truthy v then py_round v 2 else Inr PNone)"

text \<open>\<^verbatim>\<open>if v: v = v * 100\<close>\<close>

definition percent_if :: "pyval \<Rightarrow> py_error + pyval" where
  "percent_if v = (if truthy v then py_times100 v else Inr v)"

text \<open>The body of the \<^verbatim>\<open>try\<close> block, in the source's evaluation order.\<close>

definition fundamental_ratios_body :: "(string \<rightharpoonup> pyval) \<Rightarrow> py_error + fundamental_ratios" where
  "fundamental_ratios_body info =
     (let pe = dict_get info ''trailingPE'' PNone;
          fpe = dict_get info ''forwardPE'' PNone;
          peg = dict_get info ''pegRatio'' PNone;
          total_debt = dict_get info ''totalDebt'' (PNum 0);
          total_equity = dict_get info ''totalStockholderEquity'' (PNum 0)
      in bind_err (if truthy total_equity \<and> total_equity \<noteq> PNum 0
                   then py_truediv total_debt total_equity else Inr PNone) (\<lambda>d2e.
         let fcf = dict_get info ''freeCashflow'' PNone
         in bind_err (percent_if (dict_get info ''dividendYield'' PNone)) (\<lambda>dy.
         let bv = dict_get info ''bookValue'' PNone;
             ptb = dict_get info ''priceToBook'' PNone
         in bind_err (percent_if (dict_get info ''returnOnEquity'' PNone)) (\<lambda>roe.
         bind_err (round2_if pe) (\<lambda>r_pe.
         bind_err (round2_if fpe) (\<lambda>r_fpe.
         bind_err (round2_if peg) (\<lambda>r_peg.
         bind_err (round2_if d2e) (\<lambda>r_d2e.
         bind_err (round2_if dy) (\<lambda>r_dy.
         bind_err (round2_if bv) (\<lambda>r_bv.
         bind_err (round2_if ptb) (\<lambda>r_ptb.
         bind_err (round2_if roe) (\<lambda>r_roe.
         Inr \<lparr>pe_ratio = r_pe, forward_pe = r_fpe, peg_ratio = r_peg, debt_to_equity = r_d2e,
              free_cash_flow = fcf, dividend_yield = r_dy, book_value = r_bv,
              price_to_book = r_ptb, return_on_equity = r_roe\<rparr>))))))))))))"

text \<open>Any exception inside the block gives the all-null dictionary.\<close>

definition calculate_fundamental_ratios :: "(string \<rightharpoonup> pyval) \<Rightarrow> fundamental_ratios" where
  "calculate_fundamental_ratios info =
     (case fundamental_ratios_body info of Inr r \<Rightarrow> r | Inl e \<Rightarrow> null_fundamental_ratios)"

section \<open>Floating-point specials\<close>

text \<open>
  Prices are NumPy floats. Dividing by zero there raises nothing: it yields an infinity
  or NaN, and every ordering comparison with NaN is false. Only these special values are
  modelled; finite values are reals.
\<close>

datatype npfloat = NaN | NegInf | Fin real | PosInf

definition np_div :: "real \<Rightarrow> real \<Rightarrow> npfloat" where
  "np_div x y =
     (if y = 0 then (if x = 0 then NaN else if 0 < x then PosInf else NegInf)
      else Fin (x / y))"

fun np_times100 :: "npfloat \<Rightarrow> npfloat" where
  "np_times100 (Fin x) = Fin (x * 100)"
| "np_times100 v = v"

text \<open>\<^verbatim>\<open>v <= t\<close> for a finite \<open>t\<close>, and \<^verbatim>\<open>a < b\<close>, \<^verbatim>\<open>a <= b\<close>.\<close>

fun np_le_real :: "npfloat \<Rightarrow> real \<Rightarrow> bool" where
  "np_le_real (Fin x) t = (x \<le> t)"
| "np_le_real NegInf t = True"
| "np_le_real PosInf t = False"
| "np_le_real NaN t = False"

fun np_less :: "npfloat \<Rightarrow> npfloat \<Rightarrow> bool" where
  "np_less NaN b = False"
| "np_less a NaN = False"
| "np_less (Fin x) (Fin y) = (x < y)"
| "np_less NegInf b = (b \<noteq> NegInf)"
| "np_less a PosInf = (a \<noteq> PosInf)"
| "np_less a b = False"


fun np_round :: "nat \<Rightarrow> npfloat \<Rightarrow> npfloat" where
  "np_round n (Fin x) = Fin (round_ndigits n x)"
| "np_round n v = v"

text \<open>\<^verbatim>\<open>int(v)\<close>: truncation toward zero; an infinity raises OverflowError and NaN
  ValueError.\<close>

fun np_int :: "npfloat \<Rightarrow> py_error + int" where
  "np_int (Fin x) = Inr (if 0 \<le> x then \<lfloor>x\<rfloor> else \<lceil>x\<rceil>)"
| "np_int NaN = Inl ValueError"
| "np_int v = Inl OverflowError"

section \<open>Price history and technical indicators (calculate_technical_indicators)\<close>

record bar =
  bar_open :: real
  bar_high :: real
  bar_low :: real
  bar_close :: real
  bar_volume :: real

text \<open>\<^verbatim>\<open>series.iloc[-k]\<close> for \<open>k \<ge> 1\<close>.\<close>

definition iloc_neg :: "'a list \<Rightarrow> nat \<Rightarrow> py_error + 'a" where
  "iloc_neg xs k = (if k = 0 \<or> length xs < k then Inl IndexError else Inr (xs ! (length xs - k)))"

text \<open>
  The indicator package \<^verbatim>\<open>ta\<close> is third-party code outside the repository, so its
  five results are parameters: each maps the columns it is given to the last value of
  the indicator series (possibly NaN), or raises.
\<close>

record ta_lib =
  ta_rsi :: "real list \<Rightarrow> nat \<Rightarrow> py_error + npfloat"
  ta_macd :: "real list \<Rightarrow> py_error + npfloat"
  ta_macd_signal :: "real list \<Rightarrow> py_error + npfloat"
  ta_macd_diff :: "real list \<Rightarrow> py_error + npfloat"
  ta_obv :: "real list \<Rightarrow> real list \<Rightarrow> py_error + npfloat"

record technical_indicators =
  rsi :: "npfloat option"
  macd :: "npfloat option"
  macd_signal :: "npfloat option"
  macd_histogram :: "npfloat option"
  obv :: "int option"

definition null_technical_indicators :: technical_indicators where
  "null_technical_indicators =
     \<lparr>rsi = None, macd = None, macd_signal = None, macd_histogram = None, obv = None\<rparr>"

text \<open>\<^verbatim>\<open>round(v, n) if not pd.isna(v) else None\<close>\<close>

definition round_unless_nan :: "nat \<Rightarrow> npfloat \<Rightarrow> npfloat option" where
  "round_unless_nan n v = (if v = NaN then None else Some (np_round n v))"

definition technical_indicators_body :: "ta_lib \<Rightarrow> bar list \<Rightarrow> py_error + technical_indicators" where
  "technical_indicators_body lib hist_data =
     (if length hist_data < 14 then Inr null_technical_indicators
      else
        let closes = map bar_close hist_data; volumes = map bar_volume hist_data
        in bind_err (ta_rsi lib closes 14) (\<lambda>rsi_v.
           bind_err (ta_macd lib closes) (\<lambda>macd_v.
           bind_err (ta_macd_signal lib closes) (\<lambda>signal_v.
           bind_err (ta_macd_diff lib closes) (\<lambda>diff_v.
           bind_err (ta_obv lib closes volumes) (\<lambda>obv_v.
           bind_err (if obv_v = NaN then Inr None else map_sum id Some (np_int obv_v)) (\<lambda>obv_i.
           Inr \<lparr>rsi = round_unless_nan 2 rsi_v, macd = round_unless_nan 4 macd_v,
                macd_signal = round_unless_nan 4 signal_v,
                macd_histogram = round_unless_nan 4 diff_v, obv = obv_i\<rparr>)))))))"

definition calculate_technical_indicators :: "ta_lib \<Rightarrow> bar list \<Rightarrow> technical_indicators" where
  "calculate_technical_indicators lib hist_data =
     (case technical_indicators_body lib hist_data of
        Inr r \<Rightarrow> r | Inl e \<Rightarrow> null_technical_indicators)"

section \<open>Throttle and retry (rate_limited_request)\<close>

text \<open>
  The analyzer's mutable attributes. The wall clock is not modelled, so the throttle's
  own wait (which depends on \<^verbatim>\<open>time.time()\<close>) leaves no trace; the two unconditional
  sleeps are logged with the arguments that determine their length: the deterministic
  part of a backoff delay (a jitter from \<^verbatim>\<open>random.uniform(0, 1)\<close> is added to it) and
  the range an inter-batch pause is drawn from.
\<close>

datatype sleep_event = Backoff real | InterBatchSleep real real

record analyzer_state =
  request_count :: nat
  failed_requests :: "string list"
  sleep_log :: "sleep_event list"

record analyzer =
  drop_threshold :: real
  config :: preset_config

definition initial_state :: analyzer_state where
  "initial_state = \<lparr>request_count = 0, failed_requests = [], sleep_log = []\<rparr>"

definition init_analyzer :: "real \<Rightarrow> string \<Rightarrow> py_error + analyzer" where
  "init_analyzer threshold rate_limit_preset =
     bind_err (get_config rate_limit_preset) (\<lambda>c. Inr \<lparr>drop_threshold = threshold, config = c\<rparr>)"

text \<open>\<^verbatim>\<open>"429" in str(e) or "rate limit" in str(e).lower()\<close>; only exceptions of
  third-party code carry a free message.\<close>

fun is_rate_limit_error :: "py_error \<Rightarrow> bool" where
  "is_rate_limit_error (LibraryError msg) = (contains msg ''429'' \<or> contains (lower msg) ''rate limit'')"
| "is_rate_limit_error e = False"

text \<open>
  The \<^verbatim>\<open>for attempt in range(max_retries)\<close> loop of the wrapper. The wrapped function
  is called with the same arguments every time; what differs is the provider's answer,
  so it takes the attempt number. Falling out of the loop returns \<^verbatim>\<open>None\<close>.
\<close>

fun rate_limited_loop ::
  "(nat \<Rightarrow> py_error + 'a option) \<Rightarrow> nat \<Rightarrow> nat \<Rightarrow> analyzer_state
   \<Rightarrow> (py_error + 'a option) \<times> analyzer_state" where
  "rate_limited_loop func 0 attempt st = (Inr None, st)"
| "rate_limited_loop func (Suc remaining) attempt st =
     (let st1 = st\<lparr>request_count := request_count st + 1\<rparr>
      in case func attempt of
           Inr result \<Rightarrow> (Inr result, st1)
         | Inl e \<Rightarrow>
             if is_rate_limit_error e
             then rate_limited_loop func remaining (Suc attempt)
                    (st1\<lparr>sleep_log := sleep_log st1 @
                       [Backoff (RATE_LIMIT_exponential_backoff_base * 2 ^ attempt)]\<rparr>)
             else (Inl e, st1))"

definition rate_limited_request ::
  "(nat \<Rightarrow> py_error + 'a option) \<Rightarrow> analyzer_state \<Rightarrow> (py_error + 'a option) \<times> analyzer_state" where
  "rate_limited_request func st = rate_limited_loop func RATE_LIMIT_max_retries 0 st"

section \<open>Symbol fetcher (analyze_single_stock)\<close>

text \<open>
  The data provider: what \<^verbatim>\<open>ticker.history(period="30d")\<close> and \<^verbatim>\<open>ticker.info\<close> answer
  for a symbol on a given attempt, each either a value or an exception.
\<close>

record provider_reply =
  history_reply :: "py_error + bar list"
  info_reply :: "py_error + (string \<rightharpoonup> pyval)"

type_synonym provider = "string \<Rightarrow> nat \<Rightarrow> provider_reply"

definition fetch_stock_data ::
  "provider \<Rightarrow> string \<Rightarrow> nat \<Rightarrow> py_error + (bar list \<times> (string \<rightharpoonup> pyval)) option" where
  "fetch_stock_data prov symb attempt =
     bind_err (history_reply (prov symb attempt)) (\<lambda>hist.
       if hist = [] \<or> length hist < 2 then Inr None
       else bind_err (info_reply (prov symb attempt)) (\<lambda>info. Inr (Some (hist, info))))"

record analysis_record =
  symbol :: string
  company_name :: pyval
  sector :: pyval
  current_price :: real
  previous_close :: real
  percent_change :: npfloat
  market_cap :: pyval
  fifty_two_week_high :: pyval
  fifty_two_week_low :: pyval
  distance_from_high :: real
  volume :: real
  avg_volume :: real
  technical :: technical_indicators
  fundamental :: fundamental_ratios

text \<open>\<^verbatim>\<open>((current_close - high) / high) * 100 if high else 0\<close>\<close>

fun distance_from_52w_high :: "real \<Rightarrow> pyval \<Rightarrow> py_error + real" where
  "distance_from_52w_high cur (PNum h) = Inr (if h = 0 then 0 else ((cur - h) / h) * 100)"
| "distance_from_52w_high cur PNone = Inr 0"
| "distance_from_52w_high cur (PStr s) = (if s = [] then Inr 0 else Inl TypeError)"

definition percent_change_of :: "real \<Rightarrow> real \<Rightarrow> npfloat" where
  "percent_change_of previous current = np_times100 (np_div (current - previous) previous)"

text \<open>
  The statements from reading the two closes up to the \<^verbatim>\<open>return result\<close>, identical
  in both analyzers except for where \<^verbatim>\<open>info\<close> comes from, which is the argument
  \<open>get_info\<close>. The two dictionaries merged by \<^verbatim>\<open>result.update\<close> are kept as
  sub-records. A symbol that does not qualify reaches the end of the function, which
  returns \<^verbatim>\<open>None\<close>.
\<close>

definition drop_record ::
  "ta_lib \<Rightarrow> real \<Rightarrow> string \<Rightarrow> bar list \<Rightarrow> (py_error + (string \<rightharpoonup> pyval))
   \<Rightarrow> py_error + analysis_record option" where
  "drop_record lib threshold ticker_symbol hist get_info =
     bind_err (iloc_neg (map bar_close hist) 2) (\<lambda>prev.
     bind_err (iloc_neg (map bar_close hist) 1) (\<lambda>cur.
     let pc = percent_change_of prev cur in
     if np_le_real pc threshold then
       bind_err get_info (\<lambda>info.
       let high = dict_get info ''fiftyTwoWeekHigh'' (PNum 0) in
       bind_err (distance_from_52w_high cur high) (\<lambda>dist.
       bind_err (iloc_neg (map bar_volume hist) 1) (\<lambda>vol.
       Inr (Some
         \<lparr>symbol = ticker_symbol,
          company_name = dict_get info ''longName'' (PStr ticker_symbol),
          sector = dict_get info ''sector'' (PStr ''Unknown''),
          current_price = cur,
          previous_close = prev,
          percent_change = pc,
          market_cap = dict_get info ''marketCap'' (PNum 0),
          fifty_two_week_high = high,
          fifty_two_week_low = dict_get info ''fiftyTwoWeekLow'' (PNum 0),
          distance_from_high = dist,
          volume = vol,
          avg_volume = sum_list (map bar_volume hist) / real (length hist),
          technical = calculate_technical_indicators lib hist,
          fundamental = calculate_fundamental_ratios info\<rparr>))))
     else Inr None))"

text \<open>
  fortune5000-analysis.py: the fetch of history and info is wrapped by the rate
  limiter; any exception reaching the \<^verbatim>\<open>except\<close> clause appends the symbol to
  \<^verbatim>\<open>failed_requests\<close>.
\<close>

definition analyze_single_stock ::
  "analyzer \<Rightarrow> ta_lib \<Rightarrow> provider \<Rightarrow> string \<Rightarrow> analyzer_state
   \<Rightarrow> analysis_record option \<times> analyzer_state" where
  "analyze_single_stock a lib prov ticker_symbol st =
     (case rate_limited_request (fetch_stock_data prov ticker_symbol) st of
        (Inl e, st1) \<Rightarrow>
          (None, st1\<lparr>failed_requests := failed_requests st1 @ [ticker_symbol]\<rparr>)
      | (Inr None, st1) \<Rightarrow> (None, st1)
      | (Inr (Some (hist, info)), st1) \<Rightarrow>
          (case drop_record lib (drop_threshold a) ticker_symbol hist (Inr info) of
             Inl e \<Rightarrow> (None, st1\<lparr>failed_requests := failed_requests st1 @ [ticker_symbol]\<rparr>)
           | Inr r \<Rightarrow> (r, st1)))"


section \<open>Batcher and orchestrator (process_batch, analyze_us_stocks)\<close>

text \<open>
  The thread pool runs the symbols of a batch concurrently. The model runs them one
  after another in submission order, which is the schedule of the presets with one
  worker; the shared attributes are only appended to or incremented, so another
  schedule permutes the result list and the failure list.
\<close>

fun process_batch ::
  "analyzer \<Rightarrow> ta_lib \<Rightarrow> provider \<Rightarrow> string list \<Rightarrow> analyzer_state
   \<Rightarrow> analysis_record list \<times> analyzer_state" where
  "process_batch a lib prov [] st = ([], st)"
| "process_batch a lib prov (ticker # rest) st =
     (case analyze_single_stock a lib prov ticker st of
        (result, st1) \<Rightarrow>
          (case process_batch a lib prov rest st1 of
             (results, st2) \<Rightarrow>
               ((case result of Some r \<Rightarrow> r # results | None \<Rightarrow> results), st2)))"

text \<open>\<^verbatim>\<open>list.sort(key=...)\<close>: a stable sort that compares keys with \<^verbatim>\<open><\<close> only.\<close>

fun insort_by :: "('a \<Rightarrow> npfloat) \<Rightarrow> 'a \<Rightarrow> 'a list \<Rightarrow> 'a list" where
  "insort_by key x [] = [x]"
| "insort_by key x (y # ys) =
     (if np_less (key y) (key x) then y # insort_by key x ys else x # y # ys)"

definition py_sort :: "('a \<Rightarrow> npfloat) \<Rightarrow> 'a list \<Rightarrow> 'a list" where
  "py_sort key xs = foldr (insort_by key) xs []"

text \<open>
  \<^verbatim>\<open>display_results\<close> sorts the list it is given in place; the value returned here is
  that list afterwards, which is both the sequence of rows printed and the list
  \<^verbatim>\<open>save_results_to_csv\<close> receives next. Printing and the news lookups of the detail
  section are left out.
\<close>

definition display_results :: "analysis_record list \<Rightarrow> analysis_record list" where
  "display_results dropped_stocks =
     (if dropped_stocks = [] then [] else py_sort percent_change dropped_stocks)"

record run_result =
  displayed :: "analysis_record list"
  saved :: "analysis_record list option"
  final_state :: analyzer_state

text \<open>
  The loop \<^verbatim>\<open>for batch_num in range(0, len(tickers), self.batch_size)\<close>, with the
  pause between batches logged. A batch size of zero never reaches the loop (computing
  \<^verbatim>\<open>total_batches\<close> raises first, see \<open>analyze_us_stocks\<close>); the loop stops at once
  there.
\<close>

function batch_loop ::
  "analyzer \<Rightarrow> ta_lib \<Rightarrow> provider \<Rightarrow> string list \<Rightarrow> nat \<Rightarrow> nat
   \<Rightarrow> analysis_record list \<Rightarrow> analyzer_state \<Rightarrow> analysis_record list \<times> analyzer_state" where
  "batch_loop a lib prov tickers total_batches batch_num dropped_stocks st =
     (if batch_size (config a) = 0 \<or> length tickers \<le> batch_num then (dropped_stocks, st)
      else
        let batch_tickers = take (batch_size (config a)) (drop batch_num tickers);
            current_batch = batch_num div batch_size (config a) + 1
        in case process_batch a lib prov batch_tickers st of
             (batch_results, st1) \<Rightarrow>
               batch_loop a lib prov tickers total_batches (batch_num + batch_size (config a))
                 (dropped_stocks @ batch_results)
                 (if current_batch < total_batches
                  then st1\<lparr>sleep_log := sleep_log st1 @ [InterBatchSleep 2 5]\<rparr>
                  else st1))"
  by pat_completeness auto
termination
  by (relation "measure (\<lambda>(a, lib, prov, tickers, total, batch_num, acc, st). length tickers - batch_num)")
     auto

text \<open>
  \<^verbatim>\<open>analyze_us_stocks\<close>, given the result of loading the ticker list. \<open>Inr None\<close> is
  the early return when no tickers were loaded.
\<close>

definition analyze_us_stocks ::
  "analyzer \<Rightarrow> ta_lib \<Rightarrow> provider \<Rightarrow> string list option \<Rightarrow> analyzer_state
   \<Rightarrow> py_error + run_result option" where
  "analyze_us_stocks a lib prov loaded st =
     (case loaded of
        None \<Rightarrow> Inr None
      | Some tickers \<Rightarrow>
          if tickers = [] then Inr None
          else if batch_size (config a) = 0 then Inl ZeroDivisionError
          else
            let total_batches = (length tickers + batch_size (config a) - 1) div batch_size (config a)
            in case batch_loop a lib prov tickers total_batches 0 [] st of
                 (dropped_stocks, st1) \<Rightarrow>
                   let shown = display_results dropped_stocks
                   in Inr (Some \<lparr>displayed = shown,
                                 saved = (if shown = [] then None else Some shown),
                                 final_state = st1\<rparr>))"


section \<open>Reference formulations\<close>






text \<open>
  An exception reaches the \<^verbatim>\<open>except\<close> clause of \<^verbatim>\<open>analyze_single_stock\<close> for this
  symbol: the wrapper re-raised an error that is not a rate-limit error, or building the
  record raised. It is determined by the provider's answers for the symbol alone.
\<close>

definition symbol_raises :: "analyzer \<Rightarrow> ta_lib \<Rightarrow> provider \<Rightarrow> string \<Rightarrow> bool" where
  "symbol_raises a lib prov s =
     (case fst (rate_limited_request (fetch_stock_data prov s) initial_state) of
        Inl e \<Rightarrow> True
      | Inr None \<Rightarrow> False
      | Inr (Some (hist, info)) \<Rightarrow> isl (drop_record lib (drop_threshold a) s hist (Inr info)))"


text \<open>The pauses between batches in a sleep log, and the sleep log a run ends with.\<close>

fun is_inter_batch :: "sleep_event \<Rightarrow> bool" where
  "is_inter_batch (InterBatchSleep lo hi) = True"
| "is_inter_batch (Backoff d) = False"

definition run_sleep_log :: "py_error + run_result option \<Rightarrow> sleep_event list option" where
  "run_sleep_log res =
     (case res of Inr (Some out) \<Rightarrow> Some (sleep_log (final_state out)) | _ \<Rightarrow> None)"


section \<open>Inputs of the worked examples\<close>

text \<open>
  A bar with one price for open, high, low and close; a provider that answers every
  request with the same window and info; an analyzer with the balanced preset; and an
  instance of the indicator package with the warm-up of exponential averages that
  require as many observations as their window (14 closes for RSI, 26 for MACD, 34 for
  its signal line and histogram) and placeholder values afterwards.
\<close>

definition flat_bar :: "real \<Rightarrow> real \<Rightarrow> bar" where
  "flat_bar price vol =
     \<lparr>bar_open = price, bar_high = price, bar_low = price, bar_close = price, bar_volume = vol\<rparr>"

definition warmup_ta_lib :: ta_lib where
  "warmup_ta_lib =
     \<lparr>ta_rsi = (\<lambda>closes window. Inr (if length closes < window then NaN else Fin 50)),
      ta_macd = (\<lambda>closes. Inr (if length closes < 26 then NaN else Fin 0)),
      ta_macd_signal = (\<lambda>closes. Inr (if length closes < 34 then NaN else Fin 0)),
      ta_macd_diff = (\<lambda>closes. Inr (if length closes < 34 then NaN else Fin 0)),
      ta_obv = (\<lambda>closes volumes. Inr (Fin (sum_list volumes)))\<rparr>"

definition constant_provider :: "bar list \<Rightarrow> (string \<rightharpoonup> pyval) \<Rightarrow> provider" where
  "constant_provider hist info = (\<lambda>symb attempt. \<lparr>history_reply = Inr hist, info_reply = Inr info\<rparr>)"

definition balanced_analyzer :: "real \<Rightarrow> analyzer" where
  "balanced_analyzer threshold = \<lparr>drop_threshold = threshold, config = preset_balanced\<rparr>"

text \<open>A provider whose every call raises an exception with the given message.\<close>

definition failing_provider :: "string \<Rightarrow> provider" where
  "failing_provider msg = (\<lambda>symb attempt.
     \<lparr>history_reply = Inl (LibraryError msg), info_reply = Inl (LibraryError msg)\<rparr>)"

text \<open>
  A provider under which one symbol fails with an unclassified error and the others
  drop by 5 and by 12 percent; the analyzer of the ultra_conservative preset; eleven
  tickers, which are two batches of that preset.
\<close>

definition example_provider :: provider where
  "example_provider = (\<lambda>symb attempt.
     if symb = ''BAD'' then
       \<lparr>history_reply = Inl (LibraryError ''401 Unauthorized''), info_reply = Inr Map.empty\<rparr>
     else if symb = ''AAA'' then
       \<lparr>history_reply = Inr [flat_bar 100 5000, flat_bar 95 7000], info_reply = Inr Map.empty\<rparr>
     else
       \<lparr>history_reply = Inr [flat_bar 100 5000, flat_bar 88 7000], info_reply = Inr Map.empty\<rparr>)"

definition ultra_conservative_analyzer :: analyzer where
  "ultra_conservative_analyzer = \<lparr>drop_threshold = - 1, config = preset_ultra_conservative\<rparr>"

definition eleven_tickers :: "string list" where
  "eleven_tickers = [''A'', ''B'', ''C'', ''D'', ''E'', ''F'', ''G'', ''H'', ''I'', ''J'', ''K'']"


section \<open>Verified properties\<close>

subsection \<open>Configuration presets\<close>

text \<open>
  Claim C10. For every preset name that is not one of 'aggressive', 'balanced',
  'conservative', 'ultra_conservative', \<^verbatim>\<open>get_config\<close> signals no error and returns
  the 'balanced' configuration.
\<close>

theorem get_config_unknown_is_balanced:
  "preset \<notin> {''aggressive'', ''balanced'', ''conservative'', ''ultra_conservative''}
   \<Longrightarrow> get_config preset = Inr preset_balanced
       \<and> get_config preset = get_config ''balanced''"
  by (simp add: get_config_def dict_getitem_def PRESETS_def)

theorem get_config_unknown_is_balanced_witness:
  "''turbo'' \<notin> {''aggressive'', ''balanced'', ''conservative'', ''ultra_conservative''}
   \<and> get_config ''turbo'' = Inr preset_balanced
   \<and> get_config ''turbo'' = get_config ''balanced''"
  using get_config_unknown_is_balanced [of "''turbo''"]
  by auto

subsection \<open>Ticker filtering\<close>

lemma strip_no_space: "\<forall>c\<in>set s. \<not> isspace c \<Longrightarrow> strip s = s"
proof -
  assume a: "\<forall>c\<in>set s. \<not> isspace c"
  have "dropWhile isspace s = s" using a by (cases s) auto
  moreover have "dropWhile isspace (rev s) = rev s" using a by (cases "rev s") (auto dest: arg_cong[where f=set])
  ultimately show ?thesis by (simp add: strip_def)
qed

lemma isalnum_not_space: "isalnum c \<Longrightarrow> \<not> isspace c"
  by (auto simp: isalnum_def isspace_def ascii_upper_def ascii_lower_def ascii_digits_def)

lemma endswith_set: "endswith s p \<Longrightarrow> set p \<subseteq> set s"
  unfolding endswith_def by (metis set_drop_subset)

lemma str_isalnum_removed:
  assumes "str_isalnum (remove_char CHR ''.'' (remove_char CHR ''-'' u))"
  shows "\<forall>c\<in>set u. isalnum c \<or> c = CHR ''-'' \<or> c = CHR ''.''"
  using assms by (auto simp: str_isalnum_def remove_char_def list_all_iff)

lemma remove_replace:
  "remove_char CHR ''.'' (remove_char CHR ''-'' (replace_char CHR ''.'' CHR ''-'' s))
   = remove_char CHR ''.'' (remove_char CHR ''-'' s)"
  by (induction s) (auto simp: remove_char_def replace_char_def)

lemma replace_no_dot: "CHR ''.'' \<notin> set (replace_char CHR ''.'' CHR ''-'' s)"
  by (auto simp: replace_char_def)

lemma replace_set: "set (replace_char CHR ''.'' CHR ''-'' s) \<subseteq> insert CHR ''-'' (set s)"
  by (auto simp: replace_char_def)

lemma replace_has_dash: "CHR ''.'' \<in> set s \<Longrightarrow> CHR ''-'' \<in> set (replace_char CHR ''.'' CHR ''-'' s)"
  by (auto simp: replace_char_def)

lemma excluded_suffix_cases:
  "p \<in> set excluded_suffixes \<Longrightarrow> CHR ''.'' \<in> set p \<or> p = ''$'' \<or> p = ''#''"
  by (auto simp: excluded_suffixes_def)

lemma valid_ticker_fixed:
  assumes "valid_ticker raw = Some u"
  shows "valid_ticker u = Some u"
proof -
  define t where "t = strip raw"
  from assms have c1: "t \<noteq> []" "t \<noteq> ''nan''" "length t \<le> 6"
    and c2: "\<not> list_ex (endswith t) excluded_suffixes"
    and c3: "CHR ''$'' \<notin> set t" "CHR ''#'' \<notin> set t"
    and u: "u = (if CHR ''.'' \<in> set t \<and> \<not> endswith t ''.''
                       then replace_char CHR ''.'' CHR ''-'' t else t)"
    and c4: "str_isalnum (remove_char CHR ''.'' (remove_char CHR ''-'' u))"
    and c5: "(case u of [] \<Rightarrow> False | c # _ \<Rightarrow> isalpha c)"
    unfolding valid_ticker_def t_def [symmetric] Let_def
    by (auto split: if_splits)
  have nospace: "\<forall>c\<in>set u. \<not> isspace c"
    using str_isalnum_removed[OF c4] isalnum_not_space
    by (auto simp: isspace_def)
  have s: "strip u = u" by (rule strip_no_space[OF nospace])
  have len: "length u = length t" by (simp add: u replace_char_def)
  have d1: "u \<noteq> []" using c1 len by auto
  have d2: "u \<noteq> ''nan''"
  proof (cases "CHR ''.'' \<in> set t \<and> \<not> endswith t ''.''")
    case True
    then have "CHR ''-'' \<in> set u" using replace_has_dash by (simp add: u)
    then show ?thesis by auto
  next
    case False then show ?thesis using c1 u by auto
  qed
  have d3: "\<not> 6 < length u" using c1 len by simp
  have d5: "CHR ''$'' \<notin> set u" "CHR ''#'' \<notin> set u"
    using c3 replace_set[of t] by (auto simp: u split: if_splits)
  have d4: "\<not> list_ex (endswith u) excluded_suffixes"
  proof (cases "CHR ''.'' \<in> set t \<and> \<not> endswith t ''.''")
    case True
    then have nd: "CHR ''.'' \<notin> set u" using replace_no_dot by (simp add: u)
    show ?thesis
    proof
      assume "list_ex (endswith u) excluded_suffixes"
      then obtain p where p: "p \<in> set excluded_suffixes" "endswith u p"
        by (auto simp: list_ex_iff)
      from excluded_suffix_cases[OF p(1)] endswith_set[OF p(2)] nd d5
      show False by auto
    qed
  next
    case False then show ?thesis using c2 u by auto
  qed
  have d6: "(if CHR ''.'' \<in> set u \<and> \<not> endswith u ''.''
                       then replace_char CHR ''.'' CHR ''-'' u else u) = u"
  proof (cases "CHR ''.'' \<in> set t \<and> \<not> endswith t ''.''")
    case True
    then have nd: "CHR ''.'' \<notin> set u" using replace_no_dot by (simp add: u)
    then show ?thesis by simp
  next
    case False then show ?thesis using u by auto
  qed
  show ?thesis
    unfolding valid_ticker_def Let_def s d6
    using d1 d2 d3 d4 d5 c4 c5 by simp
qed

lemma map_filter_fixed:
  "\<forall>x\<in>set xs. f x = Some x \<Longrightarrow> List.map_filter f xs = xs"
  by (induction xs) auto

lemma set_map_filter: "set (List.map_filter f xs) = {y. \<exists>x\<in>set xs. f x = Some y}"
  by (induction xs) (auto split: option.splits)

text \<open>
  Claim C9. The ticker filter is idempotent: filtering its own output gives the same
  list again, and the filtered list is sorted in ascending order and free of
  duplicates.
\<close>

theorem filter_tickers_idempotent:
  "filter_tickers (filter_tickers xs) = filter_tickers xs
   \<and> sorted (filter_tickers xs) \<and> distinct (filter_tickers xs)"
proof -
  let ?ys = "filter_tickers xs"
  have fx: "\<forall>y\<in>set ?ys. valid_ticker y = Some y"
    by (auto simp: filter_tickers_def set_map_filter intro: valid_ticker_fixed)
  have sd: "sorted ?ys" "distinct ?ys" by (simp_all add: filter_tickers_def)
  have "filter_tickers ?ys = sort (remdups ?ys)"
    using map_filter_fixed[OF fx] by (simp add: filter_tickers_def)
  also have "\<dots> = ?ys" using sd by (simp add: distinct_remdups_id sorted_sort_id)
  finally show ?thesis using sd by simp
qed

theorem filter_tickers_idempotent_witness:
  "filter_tickers [''MSFT'', '' AAPL'', ''A.BC'', ''AAPL'', ''X$'', ''BRK.A'']
     = [''A-BC'', ''AAPL'', ''MSFT'']
   \<and> filter_tickers (filter_tickers [''MSFT'', '' AAPL'', ''A.BC'', ''AAPL'', ''X$'', ''BRK.A''])
     = [''A-BC'', ''AAPL'', ''MSFT'']"
proof -
  have e: "filter_tickers [''MSFT'', '' AAPL'', ''A.BC'', ''AAPL'', ''X$'', ''BRK.A'']
     = [''A-BC'', ''AAPL'', ''MSFT'']"
    by code_simp
  show ?thesis
    using filter_tickers_idempotent [of "[''MSFT'', '' AAPL'', ''A.BC'', ''AAPL'', ''X$'', ''BRK.A'']"]
    by (simp add: e)
qed

subsection \<open>Fundamental ratios\<close>










subsection \<open>Threshold on the day-over-day change\<close>

lemma iloc_neg_1: "xs \<noteq> [] \<Longrightarrow> iloc_neg xs 1 = Inr (xs ! (length xs - 1))"
  by (cases xs) (auto simp: iloc_neg_def)

lemma iloc_neg_2: "2 \<le> length xs \<Longrightarrow> iloc_neg xs 2 = Inr (xs ! (length xs - 2))"
  by (auto simp: iloc_neg_def)


lemma rate_limited_request_first_ok:
  assumes "func 0 = Inr r"
  shows "rate_limited_request func st = (Inr r, st\<lparr>request_count := request_count st + 1\<rparr>)"
  using assms by (simp add: rate_limited_request_def RATE_LIMIT_max_retries_def eval_nat_numeral)





subsection \<open>Retry cap and the failure list\<close>

lemma is_rate_limit_429: "is_rate_limit_error (LibraryError ''429 Too Many Requests'')"
  by (simp add: startswith_def)

lemma not_rate_limit_401: "\<not> is_rate_limit_error (LibraryError ''401 Unauthorized'')"
  by (simp add: startswith_def lower_def lower_char_def ascii_upper_def ascii_lower_def)

text \<open>
  Claim C2, evaluated on the code. A symbol whose every provider call fails with a
  rate-limit error is attempted exactly \<^verbatim>\<open>max_retries\<close> = 3 times, with backoff delays
  based on 1, 2 and 4 seconds, and yields no record; but the failure list stays empty,
  so the symbol is indistinguishable from one that did not qualify. A symbol failing
  with any other error is attempted once and is appended to the failure list.
\<close>

theorem rate_limit_exhaustion_unrecorded:
  "analyze_single_stock (balanced_analyzer (- 1)) warmup_ta_lib
     (failing_provider ''429 Too Many Requests'') ''ACME'' initial_state
   = (None, \<lparr>request_count = 3, failed_requests = [],
              sleep_log = [Backoff 1, Backoff 2, Backoff 4]\<rparr>)
   \<and> analyze_single_stock (balanced_analyzer (- 1)) warmup_ta_lib
     (failing_provider ''401 Unauthorized'') ''ACME'' initial_state
   = (None, \<lparr>request_count = 1, failed_requests = [''ACME''], sleep_log = []\<rparr>)"
proof -
  have f1: "\<And>n. fetch_stock_data (failing_provider ''429 Too Many Requests'') ''ACME'' n
            = Inl (LibraryError ''429 Too Many Requests'')"
    by (simp add: fetch_stock_data_def failing_provider_def bind_err_def)
  have f2: "\<And>n. fetch_stock_data (failing_provider ''401 Unauthorized'') ''ACME'' n
            = Inl (LibraryError ''401 Unauthorized'')"
    by (simp add: fetch_stock_data_def failing_provider_def bind_err_def)
  have r1: "rate_limited_request (fetch_stock_data (failing_provider ''429 Too Many Requests'') ''ACME'')
              initial_state
            = (Inr None, \<lparr>request_count = 3, failed_requests = [],
                 sleep_log = [Backoff 1, Backoff 2, Backoff 4]\<rparr>)"
    unfolding rate_limited_request_def RATE_LIMIT_max_retries_def
    by (simp add: eval_nat_numeral f1 is_rate_limit_429 initial_state_def RATE_LIMIT_exponential_backoff_base_def
             del: is_rate_limit_error.simps)
  have r2: "rate_limited_request (fetch_stock_data (failing_provider ''401 Unauthorized'') ''ACME'')
              initial_state
            = (Inl (LibraryError ''401 Unauthorized''),
               \<lparr>request_count = 1, failed_requests = [], sleep_log = []\<rparr>)"
    unfolding rate_limited_request_def RATE_LIMIT_max_retries_def
    by (simp add: eval_nat_numeral f2 not_rate_limit_401 initial_state_def del: is_rate_limit_error.simps)
  show ?thesis
    by (simp add: analyze_single_stock_def r1 r2)
qed

subsection \<open>Effects of the retry loop on the shared state\<close>

lemma loop_result_indep:
  "fst (rate_limited_loop func k n st) = fst (rate_limited_loop func k n st')"
proof (induction k arbitrary: n st st')
  case 0 show ?case by simp
next
  case (Suc k)
  show ?case
  proof (cases "func n")
    case (Inr r) then show ?thesis by simp
  next
    case (Inl e) then show ?thesis using Suc.IH by (simp add: Let_def)
  qed
qed

lemma loop_failed_unchanged:
  "failed_requests (snd (rate_limited_loop func k n st)) = failed_requests st"
proof (induction k arbitrary: n st)
  case 0 show ?case by simp
next
  case (Suc k)
  show ?case
  proof (cases "func n")
    case (Inr r) then show ?thesis by simp
  next
    case (Inl e) then show ?thesis using Suc.IH by (simp add: Let_def)
  qed
qed

lemma loop_inter_batch_unchanged:
  "filter is_inter_batch (sleep_log (snd (rate_limited_loop func k n st)))
   = filter is_inter_batch (sleep_log st)"
proof (induction k arbitrary: n st)
  case 0 show ?case by simp
next
  case (Suc k)
  show ?case
  proof (cases "func n")
    case (Inr r) then show ?thesis by simp
  next
    case (Inl e) then show ?thesis using Suc.IH by (simp add: Let_def)
  qed
qed

lemma loop_raises_unclassified:
  "fst (rate_limited_loop func k n st) = Inl e \<Longrightarrow> \<not> is_rate_limit_error e"
proof (induction k arbitrary: n st)
  case 0 then show ?case by simp
next
  case (Suc k)
  show ?case
  proof (cases "func n")
    case (Inr r) then show ?thesis using Suc.prems by simp
  next
    case (Inl e') then show ?thesis using Suc by (auto simp: Let_def split: if_splits)
  qed
qed

lemma analyze_fst:
  "fst (analyze_single_stock a lib prov s st) =
     (if symbol_raises a lib prov s then None
      else fst (analyze_single_stock a lib prov s initial_state))"
proof -
  have e: "fst (rate_limited_request (fetch_stock_data prov s) st)
         = fst (rate_limited_request (fetch_stock_data prov s) initial_state)"
    unfolding rate_limited_request_def by (rule loop_result_indep)
  show ?thesis
    using e
    by (cases "rate_limited_request (fetch_stock_data prov s) st";
        cases "rate_limited_request (fetch_stock_data prov s) initial_state")
       (auto simp: analyze_single_stock_def symbol_raises_def split: sum.splits option.splits)
qed

lemma analyze_failed:
  "failed_requests (snd (analyze_single_stock a lib prov s st)) =
     failed_requests st @ (if symbol_raises a lib prov s then [s] else [])"
proof -
  have e: "fst (rate_limited_request (fetch_stock_data prov s) st)
         = fst (rate_limited_request (fetch_stock_data prov s) initial_state)"
    unfolding rate_limited_request_def by (rule loop_result_indep)
  have f: "failed_requests (snd (rate_limited_request (fetch_stock_data prov s) st)) = failed_requests st"
    unfolding rate_limited_request_def by (rule loop_failed_unchanged)
  show ?thesis
    using e f
    by (cases "rate_limited_request (fetch_stock_data prov s) st";
        cases "rate_limited_request (fetch_stock_data prov s) initial_state")
       (auto simp: analyze_single_stock_def symbol_raises_def split: sum.splits option.splits)
qed

lemma analyze_inter_batch:
  "filter is_inter_batch (sleep_log (snd (analyze_single_stock a lib prov s st)))
   = filter is_inter_batch (sleep_log st)"
proof -
  have f: "filter is_inter_batch (sleep_log (snd (rate_limited_request (fetch_stock_data prov s) st)))
     = filter is_inter_batch (sleep_log st)"
    unfolding rate_limited_request_def by (rule loop_inter_batch_unchanged)
  show ?thesis
    using f
    by (cases "rate_limited_request (fetch_stock_data prov s) st")
       (auto simp: analyze_single_stock_def split: sum.splits option.splits)
qed

lemma process_batch_failed:
  "failed_requests (snd (process_batch a lib prov batch st))
   = failed_requests st @ filter (symbol_raises a lib prov) batch"
proof (induction batch arbitrary: st)
  case Nil show ?case by simp
next
  case (Cons t ts)
  show ?case
    using Cons.IH[of "snd (analyze_single_stock a lib prov t st)"] analyze_failed[of a lib prov t st]
    by (auto split: prod.splits)
qed

lemma process_batch_results:
  "fst (process_batch a lib prov batch st)
   = List.map_filter (\<lambda>s. fst (analyze_single_stock a lib prov s initial_state))
       (filter (\<lambda>s. \<not> symbol_raises a lib prov s) batch)"
proof (induction batch arbitrary: st)
  case Nil show ?case by simp
next
  case (Cons t ts)
  show ?case
    using Cons.IH[of "snd (analyze_single_stock a lib prov t st)"] analyze_fst[of a lib prov t st]
    by (auto split: prod.splits option.splits)
qed

lemma process_batch_inter_batch:
  "filter is_inter_batch (sleep_log (snd (process_batch a lib prov batch st)))
   = filter is_inter_batch (sleep_log st)"
proof (induction batch arbitrary: st)
  case Nil show ?case by simp
next
  case (Cons t ts)
  show ?case
    using Cons.IH[of "snd (analyze_single_stock a lib prov t st)"] analyze_inter_batch[of a lib prov t st]
    by (auto split: prod.splits)
qed

subsection \<open>Batch containment\<close>

text \<open>
  Claim C6. In a batch of M symbols of which N raise an unclassified error, exactly
  those N symbols are appended to the failure list (in processing order), and the
  batch returns the results of the other M - N symbols, each as if analyzed alone. No
  exception leaves the batch: \<^verbatim>\<open>process_batch\<close> returns a list for every input.
\<close>

theorem batch_containment:
  assumes "process_batch a lib prov batch st = (results, st')"
    and "M = length batch"
    and "N = length (filter (symbol_raises a lib prov) batch)"
  shows "failed_requests st' = failed_requests st @ filter (symbol_raises a lib prov) batch
       \<and> length (failed_requests st') = length (failed_requests st) + N
       \<and> results = List.map_filter (\<lambda>s. fst (analyze_single_stock a lib prov s initial_state))
                     (filter (\<lambda>s. \<not> symbol_raises a lib prov s) batch)
       \<and> length (filter (\<lambda>s. \<not> symbol_raises a lib prov s) batch) = M - N"
proof -
  have 1: "failed_requests st' = failed_requests st @ filter (symbol_raises a lib prov) batch"
    using process_batch_failed[of a lib prov batch st] assms(1) by simp
  have 2: "results = List.map_filter (\<lambda>s. fst (analyze_single_stock a lib prov s initial_state))
                     (filter (\<lambda>s. \<not> symbol_raises a lib prov s) batch)"
    using process_batch_results[of a lib prov batch st] assms(1) by simp
  have 3: "length (filter (\<lambda>s. \<not> symbol_raises a lib prov s) batch) = M - N"
    using sum_length_filter_compl[of "symbol_raises a lib prov" batch] assms(2,3) by simp
  show ?thesis using 1 2 3 assms(3) by simp
qed

subsection \<open>Pauses between batches\<close>

lemma ceil_div_less: "0 < bs \<Longrightarrow> (i < (len + bs - 1) div bs) = (i * bs < len)" for bs :: nat
proof -
  assume b: "0 < bs"
  have "((len + bs - 1) div bs < Suc i) = (len + bs - 1 < Suc i * bs)"
    using b by (simp add: div_less_iff_less_mult)
  also have "\<dots> = (len \<le> i * bs)" using b by auto
  finally show ?thesis by auto
qed

lemma batch_loop_inter_batch:
  assumes "0 < batch_size (config a)"
    and "tot = (length tickers + batch_size (config a) - 1) div batch_size (config a)"
  shows "filter is_inter_batch
           (sleep_log (snd (batch_loop a lib prov tickers tot (i * batch_size (config a)) acc st)))
         = filter is_inter_batch (sleep_log st) @ replicate (tot - 1 - i) (InterBatchSleep 2 5)"
  using assms
proof (induction "tot - i" arbitrary: i acc st)
  case 0
  then have "length tickers \<le> i * batch_size (config a)"
    using ceil_div_less[of "batch_size (config a)" i "length tickers"] by simp
  then show ?case using 0 by (simp add: batch_loop.simps[of _ _ _ _ _ "i * batch_size (config a)"])
next
  case (Suc k)
  let ?bs = "batch_size (config a)"
  have lt: "i < tot" using Suc.hyps(2) by simp
  then have run: "\<not> length tickers \<le> i * ?bs"
    using ceil_div_less[of ?bs i "length tickers"] Suc.prems by simp
  have cur: "(i * ?bs) div ?bs + 1 = i + 1" using Suc.prems(1) by simp
  obtain rs st1 where pb: "process_batch a lib prov (take ?bs (drop (i * ?bs) tickers)) st = (rs, st1)"
    by (cases "process_batch a lib prov (take ?bs (drop (i * ?bs) tickers)) st")
  have st1: "filter is_inter_batch (sleep_log st1) = filter is_inter_batch (sleep_log st)"
    using process_batch_inter_batch[of a lib prov "take ?bs (drop (i * ?bs) tickers)" st] pb by simp
  let ?st2 = "(if i + 1 < tot then st1\<lparr>sleep_log := sleep_log st1 @ [InterBatchSleep 2 5]\<rparr> else st1)"
  have step: "batch_loop a lib prov tickers tot (i * ?bs) acc st
            = batch_loop a lib prov tickers tot (Suc i * ?bs) (acc @ rs) ?st2"
    using run Suc.prems(1) pb cur
    by (subst batch_loop.simps) (simp add: Let_def add.commute)
  have k: "k = tot - Suc i" using Suc.hyps(2) by simp
  have ih: "filter is_inter_batch
           (sleep_log (snd (batch_loop a lib prov tickers tot (Suc i * ?bs) (acc @ rs) ?st2)))
         = filter is_inter_batch (sleep_log ?st2) @ replicate (tot - 1 - Suc i) (InterBatchSleep 2 5)"
    using Suc.hyps(1)[OF k Suc.prems] .
  show ?case
  proof (cases "i + 1 < tot")
    case True
    then have "tot - 1 - i = Suc (tot - 1 - Suc i)" by simp
    then show ?thesis using True ih st1 unfolding step by (simp add: replicate_append_same)
  next
    case False
    then have "tot - 1 - i = 0" "tot - 1 - Suc i = 0" using lt by simp_all
    then show ?thesis using False ih st1 unfolding step by simp
  qed
qed

lemma analyze_no_data:
  "analyze_single_stock a lib (constant_provider [] info) s st
   = (None, st\<lparr>request_count := request_count st + 1\<rparr>)"
proof -
  have "fetch_stock_data (constant_provider [] info) s 0 = Inr None"
    by (simp add: fetch_stock_data_def constant_provider_def bind_err_def)
  then show ?thesis
    by (simp add: analyze_single_stock_def rate_limited_request_first_ok)
qed

lemma process_batch_no_data:
  "process_batch a lib (constant_provider [] info) batch st
   = ([], st\<lparr>request_count := request_count st + length batch\<rparr>)"
  by (induction batch arbitrary: st) (simp_all add: analyze_no_data)

text \<open>
  Claim C3, evaluated on the code. With the ultra_conservative preset, whose configured
  inter-batch delay range is (10.0, 20.0), a run over eleven tickers (two batches)
  pauses once, not after the last batch, but for a duration drawn from (2.0, 5.0): the
  range is a literal in the loop and the configured one is never read.
\<close>

theorem inter_batch_sleep_ignores_preset:
  "init_analyzer (- 1) ''ultra_conservative'' = Inr ultra_conservative_analyzer
   \<and> inter_batch_delay (config ultra_conservative_analyzer) = (10, 20)
   \<and> run_sleep_log (analyze_us_stocks ultra_conservative_analyzer warmup_ta_lib
        (constant_provider [] Map.empty) (Some eleven_tickers) initial_state)
     = Some [InterBatchSleep 2 5]"
proof -
  have i: "init_analyzer (- 1) ''ultra_conservative'' = Inr ultra_conservative_analyzer"
    by (simp add: init_analyzer_def get_config_def dict_getitem_def PRESETS_def bind_err_def
          ultra_conservative_analyzer_def)
  have c: "config ultra_conservative_analyzer = preset_ultra_conservative"
    by (simp add: ultra_conservative_analyzer_def)
  have bs: "batch_size (config ultra_conservative_analyzer) = 10"
    by (simp add: c preset_ultra_conservative_def)
  have l: "length eleven_tickers = 11" by (simp add: eleven_tickers_def)
  have b: "batch_loop ultra_conservative_analyzer warmup_ta_lib (constant_provider [] Map.empty)
             eleven_tickers 2 0 [] initial_state
           = ([], \<lparr>request_count = 11, failed_requests = [], sleep_log = [InterBatchSleep 2 5]\<rparr>)"
    by (simp add: bs l process_batch_no_data Let_def initial_state_def)
  have ne: "eleven_tickers \<noteq> []" by (simp add: eleven_tickers_def)
  have tot: "(length eleven_tickers + 10 - 1) div 10 = 2" by (simp add: l)
  have r: "run_sleep_log (analyze_us_stocks ultra_conservative_analyzer warmup_ta_lib
        (constant_provider [] Map.empty) (Some eleven_tickers) initial_state)
     = Some [InterBatchSleep 2 5]"
    using ne tot
    by (simp add: analyze_us_stocks_def run_sleep_log_def bs b Let_def display_results_def
             del: batch_loop.simps)
  show ?thesis using i r by (simp add: c preset_ultra_conservative_def)
qed

subsection \<open>Ordering of the final output\<close>
















subsection \<open>A batch with one failing symbol, worked out\<close>

lemma ex_fetch_AAA: "fetch_stock_data example_provider ''AAA'' n
   = Inr (Some ([flat_bar 100 5000, flat_bar 95 7000], Map.empty))"
  by (simp add: fetch_stock_data_def example_provider_def bind_err_def)

lemma ex_fetch_BBB: "fetch_stock_data example_provider ''BBB'' n
   = Inr (Some ([flat_bar 100 5000, flat_bar 88 7000], Map.empty))"
  by (simp add: fetch_stock_data_def example_provider_def bind_err_def)

lemma ex_fetch_BAD: "fetch_stock_data example_provider ''BAD'' n
   = Inl (LibraryError ''401 Unauthorized'')"
  by (simp add: fetch_stock_data_def example_provider_def bind_err_def)

lemma ex_drop_AAA:
  "\<exists>r. drop_record lib (- 1) ''AAA'' [flat_bar 100 5000, flat_bar 95 7000] (Inr Map.empty)
          = Inr (Some r) \<and> symbol r = ''AAA'' \<and> percent_change r = Fin (- 5)"
  by (simp add: drop_record_def bind_err_def iloc_neg_def flat_bar_def percent_change_of_def
        np_div_def dict_get_def Let_def)

lemma ex_drop_BBB:
  "\<exists>r. drop_record lib (- 1) ''BBB'' [flat_bar 100 5000, flat_bar 88 7000] (Inr Map.empty)
          = Inr (Some r) \<and> symbol r = ''BBB'' \<and> percent_change r = Fin (- 12)"
  by (simp add: drop_record_def bind_err_def iloc_neg_def flat_bar_def percent_change_of_def
        np_div_def dict_get_def Let_def)

lemma ex_raises:
  "\<not> symbol_raises (balanced_analyzer (- 1)) lib example_provider ''AAA''"
  "symbol_raises (balanced_analyzer (- 1)) lib example_provider ''BAD''"
  "\<not> symbol_raises (balanced_analyzer (- 1)) lib example_provider ''BBB''"
proof -
  show "\<not> symbol_raises (balanced_analyzer (- 1)) lib example_provider ''AAA''"
    using ex_drop_AAA[of lib]
    by (auto simp: symbol_raises_def rate_limited_request_first_ok ex_fetch_AAA balanced_analyzer_def
        split: sum.splits)
  show "\<not> symbol_raises (balanced_analyzer (- 1)) lib example_provider ''BBB''"
    using ex_drop_BBB[of lib]
    by (auto simp: symbol_raises_def rate_limited_request_first_ok ex_fetch_BBB balanced_analyzer_def
        split: sum.splits)
  show "symbol_raises (balanced_analyzer (- 1)) lib example_provider ''BAD''"
    by (simp add: symbol_raises_def rate_limited_request_def RATE_LIMIT_max_retries_def
          eval_nat_numeral ex_fetch_BAD not_rate_limit_401 del: is_rate_limit_error.simps)
qed

lemma ex_analyze:
  "map_option (\<lambda>r. (symbol r, percent_change r))
     (fst (analyze_single_stock (balanced_analyzer (- 1)) lib example_provider ''AAA'' st))
   = Some (''AAA'', Fin (- 5))"
  "map_option (\<lambda>r. (symbol r, percent_change r))
     (fst (analyze_single_stock (balanced_analyzer (- 1)) lib example_provider ''BBB'' st))
   = Some (''BBB'', Fin (- 12))"
proof -
  show "map_option (\<lambda>r. (symbol r, percent_change r))
     (fst (analyze_single_stock (balanced_analyzer (- 1)) lib example_provider ''AAA'' st))
   = Some (''AAA'', Fin (- 5))"
    using ex_drop_AAA[of lib]
    by (auto simp: analyze_single_stock_def rate_limited_request_first_ok ex_fetch_AAA
          balanced_analyzer_def split: sum.splits)
  show "map_option (\<lambda>r. (symbol r, percent_change r))
     (fst (analyze_single_stock (balanced_analyzer (- 1)) lib example_provider ''BBB'' st))
   = Some (''BBB'', Fin (- 12))"
    using ex_drop_BBB[of lib]
    by (auto simp: analyze_single_stock_def rate_limited_request_first_ok ex_fetch_BBB
          balanced_analyzer_def split: sum.splits)
qed

theorem batch_containment_witness:
  "failed_requests (snd (process_batch (balanced_analyzer (- 1)) warmup_ta_lib example_provider
       [''AAA'', ''BAD'', ''BBB''] initial_state)) = [''BAD'']
   \<and> map symbol (fst (process_batch (balanced_analyzer (- 1)) warmup_ta_lib example_provider
       [''AAA'', ''BAD'', ''BBB''] initial_state)) = [''AAA'', ''BBB'']"
proof -
  let ?pb = "process_batch (balanced_analyzer (- 1)) warmup_ta_lib example_provider
       [''AAA'', ''BAD'', ''BBB''] initial_state"
  have h: "?pb = (fst ?pb, snd ?pb)" by simp
  note t = batch_containment [OF h refl refl]
  have f: "failed_requests (snd ?pb) = [''BAD'']"
    using t by (simp add: ex_raises initial_state_def)
  obtain ra where ra: "fst (analyze_single_stock (balanced_analyzer (- 1)) warmup_ta_lib
       example_provider ''AAA'' initial_state) = Some ra" "symbol ra = ''AAA''"
    using ex_analyze(1)[of warmup_ta_lib initial_state] by auto
  obtain rb where rb: "fst (analyze_single_stock (balanced_analyzer (- 1)) warmup_ta_lib
       example_provider ''BBB'' initial_state) = Some rb" "symbol rb = ''BBB''"
    using ex_analyze(2)[of warmup_ta_lib initial_state] by auto
  have "fst ?pb = [ra, rb]"
    using t by (simp add: ex_raises ra rb)
  then show ?thesis using f ra rb by simp
qed



subsection \<open>Technical indicators and the length of the window\<close>



lemma fetch_short_window:
  "history_reply (prov s m) = Inr h \<Longrightarrow> length h < 2 \<Longrightarrow> fetch_stock_data prov s m = Inr None"
  by (auto simp: fetch_stock_data_def bind_err_def)













end
